theory Spec2Isabelle
  imports Main "HOL-Library.Sublist"
begin

section \<open>Python values, exceptions and strings\<close>

text \<open>
  The program is a Python script.  A \<open>str\<close> is modelled as a \<open>string\<close>, each character
  being one code point below 256.  An exception is a value: its class and the text that
  \<open>str(e)\<close> gives.  Only the part of the class hierarchy that the \<open>except\<close> clauses of the
  script can tell apart is kept: \<open>SyntaxError\<close> with its two subclasses, the other classes
  below \<open>Exception\<close>, and the classes that are only below \<open>BaseException\<close>
  (\<open>KeyboardInterrupt\<close>, \<open>GeneratorExit\<close>), which \<open>except Exception\<close> lets through.
\<close>

datatype exc_class =
    SyntaxError | IndentationError | TabError
  | ValueError | KeyError | IndexError | TypeError | AttributeError
  | Exception
  | OtherException string
  | BaseExceptionOnly string

datatype exn = Exn exc_class string

fun exc_str :: "exn \<Rightarrow> string" where
  "exc_str (Exn c m) = m"

fun isinstance_SyntaxError :: "exn \<Rightarrow> bool" where
  "isinstance_SyntaxError (Exn c m) = (c = SyntaxError \<or> c = IndentationError \<or> c = TabError)"

fun isinstance_Exception :: "exn \<Rightarrow> bool" where
  "isinstance_Exception (Exn (BaseExceptionOnly n) m) = False"
| "isinstance_Exception (Exn c m) = True"

text \<open>
  The values that \<open>response.json()\<close> can return: \<open>None\<close>, \<open>bool\<close>, \<open>int\<close>, \<open>float\<close> (kept as
  its literal), \<open>str\<close>, \<open>list\<close> and \<open>dict\<close> (its items in order, each key once).
\<close>

datatype json =
    JNull | JBool bool | JInt int | JFloat string | JStr string
  | JArr "json list" | JObj "(string \<times> json) list"

fun type_name :: "json \<Rightarrow> string" where
  "type_name JNull = ''NoneType''"
| "type_name (JBool b) = ''bool''"
| "type_name (JInt i) = ''int''"
| "type_name (JFloat f) = ''float''"
| "type_name (JStr s) = ''str''"
| "type_name (JArr xs) = ''list''"
| "type_name (JObj kvs) = ''dict''"

definition quoted :: "string \<Rightarrow> string" where
  "quoted s = [CHR 0x27] @ s @ [CHR 0x27]"

definition not_subscriptable :: "json \<Rightarrow> exn" where
  "not_subscriptable v = Exn TypeError (quoted (type_name v) @ '' object is not subscriptable'')"

text \<open>\<open>obj[key]\<close> for a string key, and \<open>obj[0]\<close>, as the interpreter evaluates them.\<close>

fun getitem_key :: "json \<Rightarrow> string \<Rightarrow> exn + json" where
  "getitem_key (JObj kvs) k =
     (case map_of kvs k of None \<Rightarrow> Inl (Exn KeyError (quoted k)) | Some v \<Rightarrow> Inr v)"
| "getitem_key (JArr xs) k =
     Inl (Exn TypeError ''list indices must be integers or slices, not str'')"
| "getitem_key (JStr s) k = Inl (Exn TypeError (''string indices must be integers, not '' @ quoted ''str''))"
| "getitem_key v k = Inl (not_subscriptable v)"

fun getitem_0 :: "json \<Rightarrow> exn + json" where
  "getitem_0 (JArr []) = Inl (Exn IndexError ''list index out of range'')"
| "getitem_0 (JArr (x # xs)) = Inr x"
| "getitem_0 (JStr []) = Inl (Exn IndexError ''string index out of range'')"
| "getitem_0 (JStr (c # cs)) = Inr (JStr [c])"
| "getitem_0 (JObj kvs) = Inl (Exn KeyError ''0'')"
| "getitem_0 v = Inl (not_subscriptable v)"

text \<open>The characters below 256 for which \<open>str.isspace\<close> holds; \<open>str.strip()\<close> removes them
  from both ends.\<close>

definition whitespace :: "char list" where
  "whitespace = [CHR 0x09, CHR 0x0A, CHR 0x0B, CHR 0x0C, CHR 0x0D, CHR 0x1C, CHR 0x1D,
                 CHR 0x1E, CHR 0x1F, CHR 0x20, CHR 0x85, CHR 0xA0]"

definition isspace :: "char \<Rightarrow> bool" where
  "isspace c = (c \<in> set whitespace)"

definition strip :: "string \<Rightarrow> string" where
  "strip s = rev (dropWhile isspace (rev (dropWhile isspace s)))"

text \<open>\<open>sub in s\<close> on strings.\<close>

fun str_in :: "string \<Rightarrow> string \<Rightarrow> bool" where
  "str_in sub [] = (sub = [])"
| "str_in sub (c # cs) = (prefix sub (c # cs) \<or> str_in sub cs)"

text \<open>
  \<open>s.split(sep)\<close>: the pieces of \<open>s\<close> between the occurrences of \<open>sep\<close>, found from the left
  and not overlapping.  Python raises \<open>ValueError\<close> for an empty separator; both calls of
  the script pass a literal that is not empty, and for an empty \<open>sep\<close> the function below
  returns \<open>[s]\<close>.
\<close>

function str_split :: "string \<Rightarrow> string \<Rightarrow> string list" where
  "str_split [] sep = [[]]"
| "str_split (c # cs) sep =
     (if sep \<noteq> [] \<and> prefix sep (c # cs)
      then [] # str_split (drop (length sep) (c # cs)) sep
      else (case str_split cs sep of
              [] \<Rightarrow> [[c]]
            | x # xs \<Rightarrow> (c # x) # xs))"
  by pat_completeness auto
termination
  by (relation "measure (\<lambda>(s, sep). length s)") (auto simp: neq_Nil_conv)

text \<open>\<open>os.path.join(a, b)\<close> on a POSIX system.\<close>

definition path_join :: "string \<Rightarrow> string \<Rightarrow> string" where
  "path_join a b =
     (if b \<noteq> [] \<and> hd b = CHR ''/'' then b
      else if a = [] \<or> last a = CHR ''/'' then a @ b
      else a @ ''/'' @ b)"


section \<open>The environment of the script\<close>

text \<open>
  Everything outside the script is a parameter.  A \<open>world\<close> fixes what the outside
  answers: the command line as \<open>argparse\<close> reads it, the environment variables, the reply
  of the HTTP endpoint to each request, the verdict of \<open>ast.parse\<close> on each text, the
  failure (if any) of each file operation, and what the test runner does when it is
  called on given files: the exception it raises (if any) and the files it leaves behind
  (it runs the generated tests and writes its caches).  The \<open>state\<close> holds what changes
  during a run: the files, each with its text as stored, and the trace of the calls to
  the outside in order.
\<close>

record request =
  url :: string
  headers :: "(string \<times> string) list"
  data :: json

text \<open>
  A reply of the endpoint, as \<open>requests\<close> hands it over: the status code, the message
  that \<open>raise_for_status\<close> would put into its \<open>HTTPError\<close>, and what \<open>.json()\<close>
  gives (a decoding error or the decoded body).
\<close>

record response =
  status_code :: nat
  http_error_msg :: string
  json_body :: "exn + json"

datatype event =
    Print json
  | HttpPost request
  | Makedirs string
  | WriteFile string string
  | ReadFile string
  | PytestMain "string list"

text \<open>
  The options found on the command line; \<open>command_line\<close> is \<open>Inl status\<close> when \<open>argparse\<close>
  stops the process on its own (status 2 for a line it cannot read, 0 after \<open>--help\<close>).
\<close>

record cmdline =
  opt_requirements :: "string option"
  opt_workspace :: "string option"
  opt_api_key :: "string option"

record world =
  command_line :: "int + cmdline"
  getenv :: "string \<Rightarrow> string option"
  http_post :: "request \<Rightarrow> exn + response"
  ast_parse :: "string \<Rightarrow> exn option"
  io_error :: "event \<Rightarrow> exn option"
  pytest_main :: "string list \<Rightarrow> (string \<rightharpoonup> string) \<Rightarrow> exn option \<times> (string \<rightharpoonup> string)"

record state =
  files :: "string \<rightharpoonup> string"
  trace :: "event list"

type_synonym 'a action = "state \<Rightarrow> (exn + 'a) \<times> state"

definition returns :: "'a \<Rightarrow> 'a action" where
  "returns x s = (Inr x, s)"

definition raises :: "exn \<Rightarrow> 'a action" where
  "raises e s = (Inl e, s)"

definition of_result :: "exn + 'a \<Rightarrow> 'a action" where
  "of_result r s = (r, s)"

definition and_then :: "'a action \<Rightarrow> ('a \<Rightarrow> 'b action) \<Rightarrow> 'b action" where
  "and_then m f s = (case m s of (Inl e, s') \<Rightarrow> (Inl e, s') | (Inr x, s') \<Rightarrow> f x s')"

definition result_then :: "exn + 'a \<Rightarrow> ('a \<Rightarrow> exn + 'b) \<Rightarrow> exn + 'b" where
  "result_then r f = (case r of Inl e \<Rightarrow> Inl e | Inr x \<Rightarrow> f x)"

text \<open>\<open>try: m except C as e: handler\<close>, where \<open>catches\<close> says which exceptions are in \<open>C\<close>.\<close>

definition try_except :: "'a action \<Rightarrow> (exn \<Rightarrow> bool) \<Rightarrow> (exn \<Rightarrow> 'a action) \<Rightarrow> 'a action" where
  "try_except m catches handler s =
     (case m s of
        (Inl e, s') \<Rightarrow> if catches e then handler e s' else (Inl e, s')
      | (Inr x, s') \<Rightarrow> (Inr x, s'))"

definition log_event :: "event \<Rightarrow> state \<Rightarrow> state" where
  "log_event ev s = s\<lparr>trace := trace s @ [ev]\<rparr>"

definition print :: "json \<Rightarrow> unit action" where
  "print v s = (Inr (), log_event (Print v) s)"

definition requests_post :: "world \<Rightarrow> request \<Rightarrow> response action" where
  "requests_post w req s = (http_post w req, log_event (HttpPost req) s)"

text \<open>\<open>Response.raise_for_status\<close> of \<open>requests\<close>: an \<open>HTTPError\<close> for the client errors
  (4xx) and the server errors (5xx), nothing for any other status.\<close>

definition raise_for_status :: "response \<Rightarrow> exn + unit" where
  "raise_for_status r =
     (if 400 \<le> status_code r \<and> status_code r < 600
      then Inl (Exn (OtherException ''HTTPError'') (http_error_msg r))
      else Inr ())"

definition os_makedirs :: "world \<Rightarrow> string \<Rightarrow> unit action" where
  "os_makedirs w path s =
     (case io_error w (Makedirs path) of
        Some e \<Rightarrow> (Inl e, log_event (Makedirs path) s)
      | None \<Rightarrow> (Inr (), log_event (Makedirs path) s))"

text \<open>\<open>with open(path, "w") as f: f.write(content)\<close>.\<close>

definition open_write :: "world \<Rightarrow> string \<Rightarrow> string \<Rightarrow> unit action" where
  "open_write w path content s =
     (case io_error w (WriteFile path content) of
        Some e \<Rightarrow> (Inl e, log_event (WriteFile path content) s)
      | None \<Rightarrow> (Inr (), log_event (WriteFile path content) (s\<lparr>files := (files s)(path \<mapsto> content)\<rparr>)))"

definition os_path_isfile :: "state \<Rightarrow> string \<Rightarrow> bool" where
  "os_path_isfile s path = (files s path \<noteq> None)"

text \<open>
  Reading in text mode translates the line endings: \<open>CR LF\<close> and a lone \<open>CR\<close> both come
  out as \<open>LF\<close>.  (Writing in text mode on a POSIX system stores the text as it is.)
\<close>

fun universal_newlines :: "string \<Rightarrow> string" where
  "universal_newlines [] = []"
| "universal_newlines [c] = [if c = CHR 0x0D then CHR 0x0A else c]"
| "universal_newlines (c # d # cs) =
     (if c = CHR 0x0D \<and> d = CHR 0x0A then CHR 0x0A # universal_newlines cs
      else if c = CHR 0x0D then CHR 0x0A # universal_newlines (d # cs)
      else c # universal_newlines (d # cs))"

text \<open>\<open>with open(path, 'r') as f: return f.read()\<close>.  A failure to open or to decode the
  file is a failure of the read.\<close>

definition open_read :: "world \<Rightarrow> string \<Rightarrow> string action" where
  "open_read w path s =
     (case io_error w (ReadFile path) of
        Some e \<Rightarrow> (Inl e, log_event (ReadFile path) s)
      | None \<Rightarrow>
          (case files s path of
             None \<Rightarrow> (Inl (Exn (OtherException ''FileNotFoundError'') path), log_event (ReadFile path) s)
           | Some content \<Rightarrow> (Inr (universal_newlines content), log_event (ReadFile path) s)))"

section \<open>The script\<close>

record args =
  requirements :: string
  workspace :: string
  api_key :: "string option"

text \<open>\<open>parse_arguments\<close>: \<open>--requirements\<close> is required, \<open>--workspace\<close> has a default,
  \<open>--api-key\<close> is optional.\<close>

definition parse_arguments :: "world \<Rightarrow> int + args" where
  "parse_arguments w =
     (case command_line w of
        Inl status \<Rightarrow> Inl status
      | Inr c \<Rightarrow>
          (case opt_requirements c of
             None \<Rightarrow> Inl 2
           | Some r \<Rightarrow>
               Inr \<lparr>requirements = r,
                    workspace = (case opt_workspace c of None \<Rightarrow> ''coding_workspace'' | Some d \<Rightarrow> d),
                    api_key = opt_api_key c\<rparr>))"

record OpenRouterLLM =
  llm_api_key :: string
  base_url :: string

definition OpenRouterLLM_init :: "string \<Rightarrow> OpenRouterLLM" where
  "OpenRouterLLM_init key =
     \<lparr>llm_api_key = key, base_url = ''https://openrouter.ai/api/v1/chat/completions''\<rparr>"

definition llm_request :: "OpenRouterLLM \<Rightarrow> json \<Rightarrow> request" where
  "llm_request self messages =
     \<lparr>url = base_url self,
      headers = [(''Authorization'', ''Bearer '' @ llm_api_key self)],
      data = JObj [(''model'', JStr ''anthropic/claude-3.5-sonnet''),
                   (''messages'', messages),
                   (''top_p'', JInt 1),
                   (''temperature'', JFloat ''0.1''),
                   (''frequency_penalty'', JInt 0),
                   (''presence_penalty'', JInt 0),
                   (''repetition_penalty'', JInt 1),
                   (''top_k'', JInt 0)]\<rparr>"

definition generate_response :: "OpenRouterLLM \<Rightarrow> world \<Rightarrow> json \<Rightarrow> json action" where
  "generate_response self w messages =
     try_except
       (and_then (requests_post w (llm_request self messages)) (\<lambda>response.
        and_then (of_result (raise_for_status response)) (\<lambda>_.
        of_result
          (result_then (json_body response) (\<lambda>body.
           result_then (getitem_key body ''choices'') (\<lambda>choices.
           result_then (getitem_0 choices) (\<lambda>choice.
           result_then (getitem_key choice ''message'') (\<lambda>message.
           getitem_key message ''content''))))))))
       isinstance_Exception
       (\<lambda>e. raises (Exn Exception (''Error generating response: '' @ exc_str e)))"

record CodeProject =
  workspace_dir :: string
  llm :: OpenRouterLLM

definition CodeProject_init :: "string \<Rightarrow> string \<Rightarrow> CodeProject" where
  "CodeProject_init dir key = \<lparr>workspace_dir = dir, llm = OpenRouterLLM_init key\<rparr>"

definition system_messages :: "(string \<times> string) list" where
  "system_messages =
     [(''code_writer'', ''You are a skilled Python developer. Write clean, efficient, and well-documented code.''),
      (''code_reviewer'', ''You are a code reviewer. Analyze code for best practices, potential issues, and improvements.''),
      (''test_writer'', ''You are a test engineer. Write comprehensive unit tests and integration tests.'')]"

definition message :: "string \<Rightarrow> string \<Rightarrow> json" where
  "message role content = JObj [(''role'', JStr role), (''content'', JStr content)]"

definition get_llm_response :: "CodeProject \<Rightarrow> world \<Rightarrow> string \<Rightarrow> string \<Rightarrow> json action" where
  "get_llm_response self w role prompt =
     (case map_of system_messages role of
        None \<Rightarrow> raises (Exn KeyError (quoted role))
      | Some system_message \<Rightarrow>
          generate_response (llm self) w
            (JArr [message ''system'' system_message, message ''user'' prompt]))"

definition validate_python_code :: "world \<Rightarrow> string \<Rightarrow> exn + bool" where
  "validate_python_code w code =
     (case ast_parse w code of
        None \<Rightarrow> Inr True
      | Some e \<Rightarrow> if isinstance_SyntaxError e then Inr False else Inl e)"

definition write_code_to_file :: "CodeProject \<Rightarrow> world \<Rightarrow> string \<Rightarrow> string \<Rightarrow> unit action" where
  "write_code_to_file self w code filename =
     and_then (os_makedirs w (workspace_dir self)) (\<lambda>_.
     open_write w (path_join (workspace_dir self) filename) code)"

definition extract_code_from_response :: "string \<Rightarrow> exn + string" where
  "extract_code_from_response response =
     (let code_blocks =
            filter (\<lambda>block. strip block \<noteq> [] \<and> str_in ''```'' block)
                   (str_split response ''```python'')
      in if code_blocks = [] then Inl (Exn ValueError ''No code was generated'')
         else (case str_split (hd code_blocks) ''```'' of
                 [] \<Rightarrow> Inl (Exn IndexError ''list index out of range'')
               | x # _ \<Rightarrow> Inr (strip x)))"

text \<open>
  The script calls \<open>extract_code_from_response\<close> on whatever the client returned.  On a
  value that is not a \<open>str\<close> the method call \<open>response.split\<close> raises \<open>AttributeError\<close>.
\<close>

fun extract_code_from_value :: "json \<Rightarrow> exn + string" where
  "extract_code_from_value (JStr response) = extract_code_from_response response"
| "extract_code_from_value v =
     Inl (Exn AttributeError (quoted (type_name v) @ '' object has no attribute '' @ quoted ''split''))"

definition generate_project :: "CodeProject \<Rightarrow> world \<Rightarrow> string \<Rightarrow> unit action" where
  "generate_project self w reqs =
     and_then (get_llm_response self w ''code_writer''
                 (''Generate Python code based on these requirements: '' @ reqs)) (\<lambda>code_response.
     and_then (of_result (extract_code_from_value code_response)) (\<lambda>code.
     and_then (of_result (validate_python_code w code)) (\<lambda>valid.
     and_then (if \<not> valid then raises (Exn ValueError ''Generated code is not valid Python'')
               else returns ()) (\<lambda>_.
     and_then (write_code_to_file self w code ''main.py'') (\<lambda>_.
     and_then (get_llm_response self w ''code_reviewer''
                 (''Review this Python code:'' @ [CHR 0x0A] @ ''```python'' @ [CHR 0x0A] @ code
                    @ [CHR 0x0A] @ ''```'')) (\<lambda>review_response.
     and_then (print (JStr ([CHR 0x0A] @ ''Code Review:''))) (\<lambda>_.
     and_then (print review_response) (\<lambda>_.
     and_then (get_llm_response self w ''test_writer''
                 (''Write unit tests for this code:'' @ [CHR 0x0A] @ ''```python'' @ [CHR 0x0A] @ code
                    @ [CHR 0x0A] @ ''```'')) (\<lambda>test_response.
     and_then (of_result (extract_code_from_value test_response)) (\<lambda>test_code.
     write_code_to_file self w test_code ''test_main.py''))))))))))"

text \<open>\<open>pytest.main(argv)\<close>: the runner works on the files as they are and leaves its own
  behind, whether it returns or raises; its return value is not used.\<close>

definition call_pytest_main :: "world \<Rightarrow> string list \<Rightarrow> unit action" where
  "call_pytest_main w argv s =
     (case pytest_main w argv (files s) of
        (Some e, fs) \<Rightarrow> (Inl e, log_event (PytestMain argv) (s\<lparr>files := fs\<rparr>))
      | (None, fs) \<Rightarrow> (Inr (), log_event (PytestMain argv) (s\<lparr>files := fs\<rparr>)))"

definition run_tests :: "CodeProject \<Rightarrow> world \<Rightarrow> unit action" where
  "run_tests self w =
     try_except
       (call_pytest_main w [path_join (workspace_dir self) ''test_main.py'', ''-v''])
       isinstance_Exception
       (\<lambda>e. print (JStr (''Error running tests: '' @ exc_str e)))"

record ProjectManager =
  project :: CodeProject

definition ProjectManager_init :: "string \<Rightarrow> string \<Rightarrow> ProjectManager" where
  "ProjectManager_init dir key = \<lparr>project = CodeProject_init dir key\<rparr>"

definition create_project :: "ProjectManager \<Rightarrow> world \<Rightarrow> string \<Rightarrow> unit action" where
  "create_project self w reqs =
     try_except
       (and_then (print (JStr ''Generating project...'')) (\<lambda>_.
        and_then (generate_project (project self) w reqs) (\<lambda>_.
        and_then (print (JStr ([CHR 0x0A] @ ''Running tests...''))) (\<lambda>_.
        and_then (run_tests (project self) w) (\<lambda>_.
        print (JStr ([CHR 0x0A] @ ''Project generation completed!'')))))))
       isinstance_Exception
       (\<lambda>e. print (JStr (''Error creating project: '' @ exc_str e)))"

definition read_requirements :: "world \<Rightarrow> string \<Rightarrow> string action" where
  "read_requirements w requirements_path s =
     (if os_path_isfile s requirements_path then open_read w requirements_path s
      else (Inr requirements_path, s))"

text \<open>
  How the process ends: \<open>main\<close> returns (exit status 0), \<open>SystemExit\<close> with a status, or an
  exception that nothing catches (a traceback and a status that is not 0).
\<close>

datatype outcome = Returned | SystemExit int | Uncaught exn

fun truthy :: "string option \<Rightarrow> bool" where
  "truthy None = False"
| "truthy (Some s) = (s \<noteq> [])"

definition main :: "world \<Rightarrow> state \<Rightarrow> outcome \<times> state" where
  "main w s =
     (case parse_arguments w of
        Inl status \<Rightarrow> (SystemExit status, s)
      | Inr args \<Rightarrow>
          (let key = (if truthy (api_key args) then api_key args
                      else getenv w ''OPENROUTER_API_KEY'')
           in if \<not> truthy key
              then (SystemExit 1,
                    log_event (Print (JStr ''Error: OpenRouter API key not provided. Use --api-key or set OPENROUTER_API_KEY environment variable.'')) s)
              else (case read_requirements w (requirements args) s of
                      (Inl e, s1) \<Rightarrow> (Uncaught e, s1)
                    | (Inr reqs, s1) \<Rightarrow>
                        (case create_project (ProjectManager_init (workspace args) (the key)) w reqs s1 of
                           (Inl e, s2) \<Rightarrow> (Uncaught e, s2)
                         | (Inr _, s2) \<Rightarrow> (Returned, s2)))))"


section \<open>What the specification speaks of\<close>

text \<open>
  The definitions of this section follow the words of the specification, not the code;
  the theorems compare them with the script.

  The text before the first occurrence of \<open>sep\<close> in \<open>s\<close> (all of \<open>s\<close> when there is none), and
  the text after it.
\<close>

fun text_before :: "string \<Rightarrow> string \<Rightarrow> string" where
  "text_before [] sep = []"
| "text_before (c # cs) sep = (if prefix sep (c # cs) then [] else c # text_before cs sep)"

fun text_after :: "string \<Rightarrow> string \<Rightarrow> string" where
  "text_after [] sep = []"
| "text_after (c # cs) sep =
     (if prefix sep (c # cs) then drop (length sep) (c # cs) else text_after cs sep)"

text \<open>"The text between the fences": what stands between the first opening marker and
  the first closing fence after it, when the response has both.\<close>

definition fenced_text :: "string \<Rightarrow> string option" where
  "fenced_text response =
     (if str_in ''```python'' response
      then (let rest = text_after response ''```python''
            in if str_in ''```'' rest then Some (text_before rest ''```'') else None)
      else None)"

text \<open>"A non-empty segment after splitting on the marker that contains a closing fence".\<close>

definition has_fenced_block :: "string \<Rightarrow> bool" where
  "has_fenced_block response =
     (\<exists>block \<in> set (str_split response ''```python'').
        strip block \<noteq> [] \<and> str_in ''```'' block)"

text \<open>"The text content of the first completion choice" of a decoded body.\<close>

definition first_choice_content :: "json \<Rightarrow> exn + json" where
  "first_choice_content body =
     (case getitem_key body ''choices'' of
        Inl e \<Rightarrow> Inl e
      | Inr choices \<Rightarrow>
          (case getitem_0 choices of
             Inl e \<Rightarrow> Inl e
           | Inr choice \<Rightarrow>
               (case getitem_key choice ''message'' of
                  Inl e \<Rightarrow> Inl e
                | Inr m \<Rightarrow> getitem_key m ''content'')))"

text \<open>"A single generic exception wrapping the underlying failure's message".\<close>

definition generic_failure :: "exn \<Rightarrow> exn" where
  "generic_failure e =
     (if isinstance_Exception e then Exn Exception (''Error generating response: '' @ exc_str e)
      else e)"

text \<open>What one call of the client yields for a request, read off the reply of the
  endpoint.\<close>

definition reply_of :: "world \<Rightarrow> request \<Rightarrow> exn + json" where
  "reply_of w req =
     (case http_post w req of
        Inl e \<Rightarrow> Inl (generic_failure e)
      | Inr r \<Rightarrow>
          if 400 \<le> status_code r \<and> status_code r < 600
          then Inl (generic_failure (Exn (OtherException ''HTTPError'') (http_error_msg r)))
          else (case json_body r of
                  Inl e \<Rightarrow> Inl (generic_failure e)
                | Inr body \<Rightarrow>
                    (case first_choice_content body of
                       Inl e \<Rightarrow> Inl (generic_failure e)
                     | Inr v \<Rightarrow> Inr v)))"

text \<open>The three requests of one run.\<close>

definition chat_request :: "CodeProject \<Rightarrow> string \<Rightarrow> string \<Rightarrow> request" where
  "chat_request self system_message prompt =
     llm_request (llm self) (JArr [message ''system'' system_message, message ''user'' prompt])"

definition writer_request :: "CodeProject \<Rightarrow> string \<Rightarrow> request" where
  "writer_request self reqs =
     chat_request self
       ''You are a skilled Python developer. Write clean, efficient, and well-documented code.''
       (''Generate Python code based on these requirements: '' @ reqs)"

definition reviewer_request :: "CodeProject \<Rightarrow> string \<Rightarrow> request" where
  "reviewer_request self code =
     chat_request self
       ''You are a code reviewer. Analyze code for best practices, potential issues, and improvements.''
       (''Review this Python code:'' @ [CHR 0x0A] @ ''```python'' @ [CHR 0x0A] @ code @ [CHR 0x0A] @ ''```'')"

definition tester_request :: "CodeProject \<Rightarrow> string \<Rightarrow> request" where
  "tester_request self code =
     chat_request self
       ''You are a test engineer. Write comprehensive unit tests and integration tests.''
       (''Write unit tests for this code:'' @ [CHR 0x0A] @ ''```python'' @ [CHR 0x0A] @ code @ [CHR 0x0A] @ ''```'')"

text \<open>"A successful run": every call of the client returns a response with a fenced
  block, the main code parses, and no file operation fails.\<close>

definition successful_run ::
  "CodeProject \<Rightarrow> world \<Rightarrow> string \<Rightarrow> string \<Rightarrow> json \<Rightarrow> string \<Rightarrow> bool" where
  "successful_run self w reqs code review test_code =
     ((\<exists>r1. reply_of w (writer_request self reqs) = Inr (JStr r1)
            \<and> extract_code_from_response r1 = Inr code)
      \<and> validate_python_code w code = Inr True
      \<and> reply_of w (reviewer_request self code) = Inr review
      \<and> (\<exists>r3. reply_of w (tester_request self code) = Inr (JStr r3)
            \<and> extract_code_from_response r3 = Inr test_code)
      \<and> io_error w (Makedirs (workspace_dir self)) = None
      \<and> io_error w (WriteFile (path_join (workspace_dir self) ''main.py'') code) = None
      \<and> io_error w (WriteFile (path_join (workspace_dir self) ''test_main.py'') test_code) = None)"

text \<open>The names of the files that a directory holds.\<close>

definition dir_entries :: "(string \<rightharpoonup> string) \<Rightarrow> string \<Rightarrow> string set" where
  "dir_entries fs d = {n. n \<noteq> [] \<and> CHR ''/'' \<notin> set n \<and> fs (path_join d n) \<noteq> None}"


section \<open>Sample runs\<close>

definition fenced_reply :: response where
  "fenced_reply =
     \<lparr>status_code = 200, http_error_msg = [],
      json_body = Inr (JObj [(''choices'',
        JArr [JObj [(''message'',
          JObj [(''role'', JStr ''assistant''),
                (''content'', JStr (''Here you are:'' @ [CHR 0x0A] @ ''```python'' @ [CHR 0x0A]
                                     @ ''x = 1'' @ [CHR 0x0A] @ ''```''))])]])])\<rparr>"

text \<open>A world in which every call succeeds; its parser accepts everything but \<open>x = (\<close>,
  and its test runner leaves a cache file behind.\<close>

definition sample_world :: world where
  "sample_world =
     \<lparr>command_line = Inr \<lparr>opt_requirements = Some ''a counter'', opt_workspace = Some ''ws'',
                            opt_api_key = Some ''sk-test''\<rparr>,
      getenv = (\<lambda>name. None),
      http_post = (\<lambda>req. Inr fenced_reply),
      ast_parse = (\<lambda>code. if code = ''x = (''
                           then Some (Exn SyntaxError ''(<unknown>, line 1)'') else None),
      io_error = (\<lambda>ev. None),
      pytest_main = (\<lambda>argv fs. (None, fs(''.pytest_cache/CACHEDIR.TAG'' \<mapsto> ''Signature: 8a477f597d28d172789f06886806bc55'')))\<rparr>"

definition sample_project :: CodeProject where
  "sample_project = CodeProject_init ''ws'' ''sk-test''"

definition empty_state :: state where
  "empty_state = \<lparr>files = Map.empty, trace = []\<rparr>"

text \<open>The workspace already holds a file of the user.\<close>

definition notes_state :: state where
  "notes_state = \<lparr>files = [''ws/notes.txt'' \<mapsto> ''keep me''], trace = []\<rparr>"

text \<open>The endpoint answers with status 300 and a well-formed body.\<close>

definition redirect_world :: world where
  "redirect_world = sample_world\<lparr>http_post := (\<lambda>req. Inr (fenced_reply\<lparr>status_code := 300\<rparr>))\<rparr>"

text \<open>The network is down.\<close>

definition offline_world :: world where
  "offline_world =
     sample_world\<lparr>http_post := (\<lambda>req. Inl (Exn (OtherException ''ConnectionError'') ''unreachable''))\<rparr>"

text \<open>The model answers with code that does not parse.\<close>

definition broken_reply :: response where
  "broken_reply =
     fenced_reply\<lparr>json_body := Inr (JObj [(''choices'',
        JArr [JObj [(''message'', JObj [(''content'', JStr (''```python'' @ [CHR 0x0A] @ ''x = (''
                                     @ [CHR 0x0A] @ ''```''))])]])])\<rparr>"

definition broken_world :: world where
  "broken_world = sample_world\<lparr>http_post := (\<lambda>req. Inr broken_reply)\<rparr>"



text \<open>The endpoint refuses the key; and: it answers 200 with an error object in place of
  the choices.\<close>

definition denied_reply :: response where
  "denied_reply =
     \<lparr>status_code = 401,
      http_error_msg = ''401 Client Error: Unauthorized for url: https://openrouter.ai/api/v1/chat/completions'',
      json_body = Inr (JObj [(''error'', JObj [(''message'', JStr ''No auth credentials found'')])])\<rparr>"

definition denied_world :: world where
  "denied_world = sample_world\<lparr>http_post := (\<lambda>req. Inr denied_reply)\<rparr>"

definition error_body_world :: world where
  "error_body_world =
     sample_world\<lparr>http_post := (\<lambda>req. Inr (denied_reply\<lparr>status_code := 200\<rparr>))\<rparr>"






section \<open>Facts about the string functions\<close>

lemma str_in_iff: "str_in sub s \<longleftrightarrow> (\<exists>a b. s = a @ sub @ b)"
proof (induction s)
  case Nil
  then show ?case by auto
next
  case (Cons c cs)
  show ?case
  proof
    assume "str_in sub (c # cs)"
    then consider "prefix sub (c # cs)" | "str_in sub cs" by auto
    then show "\<exists>a b. c # cs = a @ sub @ b"
    proof cases
      case 1
      then obtain b where "c # cs = sub @ b" by (auto simp: prefix_def)
      then have "c # cs = [] @ sub @ b" by simp
      then show ?thesis by blast
    next
      case 2
      with Cons obtain a b where "cs = a @ sub @ b" by blast
      then have "c # cs = (c # a) @ sub @ b" by simp
      then show ?thesis by blast
    qed
  next
    assume "\<exists>a b. c # cs = a @ sub @ b"
    then obtain a b where ab: "c # cs = a @ sub @ b" by blast
    show "str_in sub (c # cs)"
    proof (cases a)
      case Nil
      with ab have "prefix sub (c # cs)" by (simp add: prefix_def)
      then show ?thesis by simp
    next
      case (Cons x a')
      with ab have "cs = a' @ sub @ b" by simp
      with Cons.IH have "str_in sub cs" by blast
      then show ?thesis by simp
    qed
  qed
qed

lemma str_in_length: "str_in sub s \<Longrightarrow> length sub \<le> length s"
  by (auto simp: str_in_iff)

lemma str_in_set: "str_in sub s \<Longrightarrow> set sub \<subseteq> set s"
  by (auto simp: str_in_iff)

lemma prefix_text_before: "prefix (text_before s sep) s"
  by (induction s) auto

lemma text_before_clean: "sep \<noteq> [] \<Longrightarrow> \<not> str_in sep (text_before s sep)"
proof (induction s)
  case Nil
  then show ?case by simp
next
  case (Cons c cs)
  show ?case
  proof (cases "prefix sep (c # cs)")
    case True
    with Cons.prems show ?thesis by simp
  next
    case False
    have "\<not> prefix sep (c # text_before cs sep)"
    proof
      assume "prefix sep (c # text_before cs sep)"
      moreover have "prefix (c # text_before cs sep) (c # cs)"
        using prefix_text_before[of cs sep] by simp
      ultimately have "prefix sep (c # cs)" by (rule prefix_order.trans)
      with False show False by simp
    qed
    with False Cons show ?thesis by simp
  qed
qed

lemma text_before_none: "\<not> str_in sep s \<Longrightarrow> text_before s sep = s"
  by (induction s) auto

lemma text_before_append:
  "str_in sep a \<Longrightarrow> text_before (a @ b) sep = text_before a sep"
proof (induction a)
  case Nil
  then show ?case by (cases b) auto
next
  case (Cons c a)
  show ?case
  proof (cases "prefix sep (c # a)")
    case True
    then have "prefix sep ((c # a) @ b)" by (rule prefix_prefix)
    then have "prefix sep (c # a @ b)" by simp
    with True show ?thesis by simp
  next
    case False
    with Cons.prems have in_a: "str_in sep a" by simp
    then have "length sep \<le> length (c # a)" using str_in_length by fastforce
    have "\<not> prefix sep ((c # a) @ b)"
    proof
      assume "prefix sep ((c # a) @ b)"
      moreover have "prefix (c # a) ((c # a) @ b)" by simp
      ultimately have "prefix sep (c # a)"
        using \<open>length sep \<le> length (c # a)\<close> by (rule prefix_length_prefix)
      with False show False by simp
    qed
    with False Cons.IH[OF in_a] show ?thesis by simp
  qed
qed

lemma str_split_unfold:
  "sep \<noteq> [] \<Longrightarrow> str_split s sep =
     (if str_in sep s then text_before s sep # str_split (text_after s sep) sep else [s])"
proof (induction s sep rule: str_split.induct)
  case (1 sep)
  then show ?case by simp
next
  case (2 c cs sep)
  show ?case
  proof (cases "prefix sep (c # cs)")
    case True
    with "2.prems" show ?thesis by simp
  next
    case False
    with 2 show ?thesis by simp
  qed
qed

lemma hd_str_split: "sep \<noteq> [] \<Longrightarrow> hd (str_split s sep) = text_before s sep"
  by (subst str_split_unfold) (auto simp: text_before_none)

lemma str_split_not_Nil: "str_split s sep \<noteq> []"
  by (induction s sep rule: str_split.induct) (auto split: list.splits)


lemma strip_decomp: "\<exists>l r. s = l @ strip s @ r"
proof -
  define d where "d = dropWhile isspace s"
  have "d = rev (takeWhile isspace (rev d) @ dropWhile isspace (rev d))"
    by (simp only: takeWhile_dropWhile_id rev_rev_ident)
  then have "d = strip s @ rev (takeWhile isspace (rev d))"
    by (simp only: rev_append strip_def d_def)
  moreover have "s = takeWhile isspace s @ d" by (simp add: d_def)
  ultimately have "s = takeWhile isspace s @ strip s @ rev (takeWhile isspace (rev d))"
    by simp
  then show ?thesis by blast
qed

lemma str_in_strip: "str_in sub (strip s) \<Longrightarrow> str_in sub s"
proof -
  assume "str_in sub (strip s)"
  then obtain a b where ab: "strip s = a @ sub @ b" by (auto simp: str_in_iff)
  obtain l r where "s = l @ strip s @ r" using strip_decomp by blast
  with ab have "s = (l @ a) @ sub @ (b @ r)" by simp
  then show ?thesis unfolding str_in_iff by blast
qed

lemma strip_Nil_iff: "strip s = [] \<longleftrightarrow> (\<forall>c \<in> set s. isspace c)"
proof
  assume "strip s = []"
  then have all: "\<forall>c \<in> set (dropWhile isspace s). isspace c"
    by (simp add: strip_def dropWhile_eq_Nil_conv)
  have "dropWhile isspace s = []"
  proof (rule ccontr)
    assume ne: "dropWhile isspace s \<noteq> []"
    then have "\<not> isspace (hd (dropWhile isspace s))" by (rule hd_dropWhile)
    moreover have "hd (dropWhile isspace s) \<in> set (dropWhile isspace s)"
      using ne by (rule hd_in_set)
    ultimately show False using all by blast
  qed
  then show "\<forall>c \<in> set s. isspace c" by (simp only: dropWhile_eq_Nil_conv)
next
  assume "\<forall>c \<in> set s. isspace c"
  then have d: "dropWhile isspace s = []" by (simp only: dropWhile_eq_Nil_conv)
  show "strip s = []" by (simp only: strip_def d rev.simps dropWhile.simps)
qed

lemma strip_ends:
  assumes "strip s \<noteq> []"
  shows "\<not> isspace (hd (strip s)) \<and> \<not> isspace (last (strip s))"
proof -
  define d where "d = dropWhile isspace s"
  define e where "e = dropWhile isspace (rev d)"
  have se: "strip s = rev e" by (simp add: strip_def d_def e_def)
  with assms have e: "e \<noteq> []" by simp
  then have d: "d \<noteq> []" by (auto simp: e_def)
  have "last (strip s) = hd e" using e se by (simp add: last_rev)
  moreover have "\<not> isspace (hd e)" using e hd_dropWhile[of isspace "rev d"] by (simp add: e_def)
  moreover have "hd (strip s) = last e" using e se by (simp add: hd_rev)
  moreover have "last e = last (rev d)"
  proof -
    have "last (takeWhile isspace (rev d) @ e) = last e" using e by simp
    then show ?thesis by (simp only: e_def takeWhile_dropWhile_id)
  qed
  moreover have "last (rev d) = hd d" using d by (simp add: last_rev)
  moreover have "\<not> isspace (hd d)" using d hd_dropWhile[of isspace s] by (simp add: d_def)
  ultimately show ?thesis by simp
qed

lemma fence_strip_not_Nil: "str_in ''```'' s \<Longrightarrow> strip s \<noteq> []"
proof -
  assume "str_in ''```'' s"
  then have "CHR 0x60 \<in> set s" using str_in_set[of "''```''" s] by simp
  moreover have "\<not> isspace (CHR 0x60)" by (simp add: isspace_def whitespace_def)
  ultimately show ?thesis by (auto simp: strip_Nil_iff)
qed

lemma str_split_Cons: "sep \<noteq> [] \<Longrightarrow> \<exists>tl. str_split s sep = text_before s sep # tl"
  by (subst str_split_unfold) (auto simp: text_before_none)

lemma case_str_split:
  "sep \<noteq> [] \<Longrightarrow> (case str_split b sep of [] \<Rightarrow> e | x # xs \<Rightarrow> f x) = f (text_before b sep)"
  using str_split_Cons[of sep b] by auto

lemma extract_Inr_form:
  "extract_code_from_response r = Inr c \<Longrightarrow> \<exists>b. c = strip (text_before b ''```'')"
  unfolding extract_code_from_response_def Let_def
  by (auto split: if_splits simp: case_str_split)

lemma extract_first_block:
  "extract_code_from_response r =
     (case find (\<lambda>block. strip block \<noteq> [] \<and> str_in ''```'' block) (str_split r ''```python'') of
        None \<Rightarrow> Inl (Exn ValueError ''No code was generated'')
      | Some block \<Rightarrow> Inr (strip (text_before block ''```'')))"
proof -
  let ?P = "\<lambda>block. strip block \<noteq> [] \<and> str_in ''```'' block"
  have "find ?P xs = (if filter ?P xs = [] then None else Some (hd (filter ?P xs)))" for xs
    by (induction xs) auto
  then show ?thesis
    by (simp add: extract_code_from_response_def Let_def case_str_split)
qed


section \<open>Code extraction\<close>

text \<open>
  Claim C1, as amended.  \<open>extract_code_from_response\<close> splits the response on the marker
  \<open>```python\<close>, takes the first segment that is not blank and contains a \<open>```\<close>, and returns
  that segment's text before its first \<open>```\<close>, trimmed.  When the text before the first
  marker contains no \<open>```\<close> and a closing \<open>```\<close> stands between the first marker and the
  next one (or the end), this is the text between the fences, trimmed.
\<close>

theorem extract_returns_fenced_text:
  "extract_code_from_response r =
     (case find (\<lambda>block. strip block \<noteq> [] \<and> str_in ''```'' block) (str_split r ''```python'') of
        None \<Rightarrow> Inl (Exn ValueError ''No code was generated'')
      | Some block \<Rightarrow> Inr (strip (text_before block ''```'')))
   \<and> (fenced_text r = Some body
        \<and> \<not> str_in ''```'' (text_before r ''```python'')
        \<and> str_in ''```'' (text_before (text_after r ''```python'') ''```python'')
      \<longrightarrow> extract_code_from_response r = Inr (strip body))"
proof (intro conjI impI)
  show "extract_code_from_response r =
     (case find (\<lambda>block. strip block \<noteq> [] \<and> str_in ''```'' block) (str_split r ''```python'') of
        None \<Rightarrow> Inl (Exn ValueError ''No code was generated'')
      | Some block \<Rightarrow> Inr (strip (text_before block ''```'')))"
    by (rule extract_first_block)
next
  assume hyps: "fenced_text r = Some body
        \<and> \<not> str_in ''```'' (text_before r ''```python'')
        \<and> str_in ''```'' (text_before (text_after r ''```python'') ''```python'')"
  let ?P = "\<lambda>block. strip block \<noteq> [] \<and> str_in ''```'' block"
  let ?rest = "text_after r ''```python''"
  let ?seg = "text_before ?rest ''```python''"
  from hyps have ft: "fenced_text r = Some body"
    and pre: "\<not> str_in ''```'' (text_before r ''```python'')"
    and seg: "str_in ''```'' ?seg"
    by simp_all
  from ft have m: "str_in ''```python'' r" and body: "body = text_before ?rest ''```''"
    by (auto simp: fenced_text_def Let_def split: if_splits)
  have "str_split r ''```python'' = text_before r ''```python'' # str_split ?rest ''```python''"
    using m by (subst str_split_unfold) auto
  moreover have "\<exists>tl. str_split ?rest ''```python'' = ?seg # tl"
    by (rule str_split_Cons) simp
  ultimately obtain tl where
    sp: "str_split r ''```python'' = text_before r ''```python'' # ?seg # tl" by auto
  have "?P ?seg" using seg fence_strip_not_Nil by blast
  with pre have "find ?P (str_split r ''```python'') = Some ?seg"
    unfolding sp by simp
  then have "extract_code_from_response r = Inr (strip (text_before ?seg ''```''))"
    by (simp add: extract_first_block)
  moreover have "text_before ?seg ''```'' = body"
  proof -
    obtain x where "?rest = ?seg @ x"
      using prefix_text_before[of ?rest "''```python''"] by (rule prefixE)
    then have x: "?seg @ x = ?rest" by (rule sym)
    have "text_before (?seg @ x) ''```'' = text_before ?seg ''```''"
      using seg by (rule text_before_append)
    then have "text_before ?rest ''```'' = text_before ?seg ''```''"
      by (simp only: x)
    then show ?thesis using body by simp
  qed
  ultimately show "extract_code_from_response r = Inr (strip body)" by simp
qed

theorem extract_returns_fenced_text_witness:
  "fenced_text (''Here you are:'' @ [CHR 0x0A] @ ''```python'' @ [CHR 0x0A] @ ''x = 1'' @ [CHR 0x0A] @ ''```'')
     = Some ([CHR 0x0A] @ ''x = 1'' @ [CHR 0x0A])
   \<and> extract_code_from_response
        (''Here you are:'' @ [CHR 0x0A] @ ''```python'' @ [CHR 0x0A] @ ''x = 1'' @ [CHR 0x0A] @ ''```'')
     = Inr ''x = 1''"
  using extract_returns_fenced_text
    [of "''Here you are:'' @ [CHR 0x0A] @ ''```python'' @ [CHR 0x0A] @ ''x = 1'' @ [CHR 0x0A] @ ''```''"
        "[CHR 0x0A] @ ''x = 1'' @ [CHR 0x0A]"]
  by (simp add: fenced_text_def strip_def isspace_def whitespace_def)

text \<open>
  Claim C1 as the specification states it fails: this response contains a fenced block,
  and the text between its fences is \<open>x = 1\<close>, yet the result is the text \<open>Use\<close> that stands
  before the first \<open>```\<close> of the response.
\<close>

theorem extract_not_between_fences:
  "fenced_text ''Use ```pip``` first: ```python x = 1 ```'' = Some '' x = 1 ''
   \<and> extract_code_from_response ''Use ```pip``` first: ```python x = 1 ```'' = Inr ''Use''
   \<and> extract_code_from_response ''Use ```pip``` first: ```python x = 1 ```''
       \<noteq> Inr (strip '' x = 1 '')"
  by (simp add: fenced_text_def extract_code_from_response_def strip_def isspace_def
        whitespace_def)

text \<open>
  Claim C2.  \<open>extract_code_from_response\<close> raises \<open>ValueError\<close> with the message
  \<open>No code was generated\<close> if and only if no segment of the split on \<open>```python\<close> is
  non-blank and contains a \<open>```\<close>; on every other input it returns a string.
\<close>

theorem extract_raises_iff_no_block:
  "(extract_code_from_response r = Inl (Exn ValueError ''No code was generated'')
      \<longleftrightarrow> \<not> has_fenced_block r)
   \<and> (has_fenced_block r \<longrightarrow> (\<exists>code. extract_code_from_response r = Inr code))"
  unfolding extract_code_from_response_def has_fenced_block_def Let_def
  by (auto simp: filter_empty_conv case_str_split)

theorem extract_raises_iff_no_block_witness:
  "has_fenced_block ''```python x = 1 ```''
   \<and> (\<exists>code. extract_code_from_response ''```python x = 1 ```'' = Inr code)
   \<and> \<not> has_fenced_block ''I cannot help with that.''
   \<and> extract_code_from_response ''I cannot help with that.''
       = Inl (Exn ValueError ''No code was generated'')"
  using extract_raises_iff_no_block [of "''```python x = 1 ```''"]
    extract_raises_iff_no_block [of "''I cannot help with that.''"]
  by (simp add: has_fenced_block_def strip_def isspace_def whitespace_def)

text \<open>
  Claim C10.  Whenever \<open>extract_code_from_response\<close> returns, its result contains no
  \<open>```\<close> and neither begins nor ends with a whitespace character.
\<close>

theorem extract_result_clean:
  assumes "extract_code_from_response r = Inr c"
  shows "\<not> str_in ''```'' c \<and> (c \<noteq> [] \<longrightarrow> \<not> isspace (hd c) \<and> \<not> isspace (last c))"
proof -
  from assms obtain b where c: "c = strip (text_before b ''```'')"
    using extract_Inr_form by blast
  have "\<not> str_in ''```'' (text_before b ''```'')" by (rule text_before_clean) simp
  then have "\<not> str_in ''```'' c" unfolding c using str_in_strip by blast
  moreover have "c \<noteq> [] \<longrightarrow> \<not> isspace (hd c) \<and> \<not> isspace (last c)"
    unfolding c using strip_ends by blast
  ultimately show ?thesis by simp
qed

theorem extract_result_clean_witness:
  "extract_code_from_response (''```python'' @ [CHR 0x0A] @ ''  x = 1  '' @ [CHR 0x0A] @ ''```'')
     = Inr ''x = 1''
   \<and> \<not> str_in ''```'' ''x = 1''
   \<and> \<not> isspace (hd ''x = 1'') \<and> \<not> isspace (last ''x = 1'')"
proof -
  have h: "extract_code_from_response
             (''```python'' @ [CHR 0x0A] @ ''  x = 1  '' @ [CHR 0x0A] @ ''```'') = Inr ''x = 1''"
    by (simp add: extract_code_from_response_def strip_def isspace_def whitespace_def)
  show ?thesis using h extract_result_clean [OF h] by simp
qed


section \<open>Facts about the actions\<close>

lemma and_then_Inr: "m s = (Inr x, s') \<Longrightarrow> and_then m f s = f x s'"
  by (simp add: and_then_def)

lemma and_then_Inl: "m s = (Inl e, s') \<Longrightarrow> and_then m f s = (Inl e, s')"
  by (simp add: and_then_def)

lemma generate_response_eq:
  "generate_response self w messages s =
     (reply_of w (llm_request self messages), log_event (HttpPost (llm_request self messages)) s)"
  by (simp add: generate_response_def try_except_def and_then_def requests_post_def of_result_def
        raises_def raise_for_status_def result_then_def reply_of_def first_choice_content_def
        generic_failure_def
      split: sum.splits)

lemma get_llm_response_writer:
  "get_llm_response self w ''code_writer'' prompt s =
     (reply_of w (chat_request self ''You are a skilled Python developer. Write clean, efficient, and well-documented code.'' prompt),
      log_event (HttpPost (chat_request self ''You are a skilled Python developer. Write clean, efficient, and well-documented code.'' prompt)) s)"
  by (simp add: get_llm_response_def system_messages_def generate_response_eq chat_request_def)

lemma get_llm_response_reviewer:
  "get_llm_response self w ''code_reviewer'' prompt s =
     (reply_of w (chat_request self ''You are a code reviewer. Analyze code for best practices, potential issues, and improvements.'' prompt),
      log_event (HttpPost (chat_request self ''You are a code reviewer. Analyze code for best practices, potential issues, and improvements.'' prompt)) s)"
  by (simp add: get_llm_response_def system_messages_def generate_response_eq chat_request_def)

lemma get_llm_response_tester:
  "get_llm_response self w ''test_writer'' prompt s =
     (reply_of w (chat_request self ''You are a test engineer. Write comprehensive unit tests and integration tests.'' prompt),
      log_event (HttpPost (chat_request self ''You are a test engineer. Write comprehensive unit tests and integration tests.'' prompt)) s)"
  by (simp add: get_llm_response_def system_messages_def generate_response_eq chat_request_def)

lemma write_code_to_file_ok:
  assumes "io_error w (Makedirs (workspace_dir self)) = None"
    and "io_error w (WriteFile (path_join (workspace_dir self) name) code) = None"
  shows "write_code_to_file self w code name s =
     (Inr (), s\<lparr>files := (files s)(path_join (workspace_dir self) name \<mapsto> code),
                trace := trace s @ [Makedirs (workspace_dir self),
                                    WriteFile (path_join (workspace_dir self) name) code]\<rparr>)"
  using assms
  by (simp add: write_code_to_file_def and_then_def os_makedirs_def open_write_def log_event_def)

lemma generate_project_success:
  assumes "successful_run self w reqs code review test_code"
  shows "generate_project self w reqs s =
     (Inr (),
      s\<lparr>files := (files s)(path_join (workspace_dir self) ''main.py'' \<mapsto> code,
                           path_join (workspace_dir self) ''test_main.py'' \<mapsto> test_code),
        trace := trace s @
          [HttpPost (writer_request self reqs),
           Makedirs (workspace_dir self),
           WriteFile (path_join (workspace_dir self) ''main.py'') code,
           HttpPost (reviewer_request self code),
           Print (JStr ([CHR 0x0A] @ ''Code Review:'')),
           Print review,
           HttpPost (tester_request self code),
           Makedirs (workspace_dir self),
           WriteFile (path_join (workspace_dir self) ''test_main.py'') test_code]\<rparr>)"
proof -
  from assms obtain r1 r3 where
    r1: "reply_of w (writer_request self reqs) = Inr (JStr r1)"
    and c1: "extract_code_from_response r1 = Inr code"
    and v: "validate_python_code w code = Inr True"
    and r2: "reply_of w (reviewer_request self code) = Inr review"
    and r3: "reply_of w (tester_request self code) = Inr (JStr r3)"
    and c3: "extract_code_from_response r3 = Inr test_code"
    and mk: "io_error w (Makedirs (workspace_dir self)) = None"
    and w1: "io_error w (WriteFile (path_join (workspace_dir self) ''main.py'') code) = None"
    and w2: "io_error w (WriteFile (path_join (workspace_dir self) ''test_main.py'') test_code) = None"
    unfolding successful_run_def by blast
  show ?thesis
    using r1 r2 r3
    unfolding generate_project_def writer_request_def reviewer_request_def tester_request_def
    by (simp add: and_then_def get_llm_response_writer get_llm_response_reviewer
          get_llm_response_tester c1 v c3 write_code_to_file_ok [OF mk w1]
          write_code_to_file_ok [OF mk w2] of_result_def returns_def print_def log_event_def)
qed

lemma generate_project_rejects:
  assumes r1: "reply_of w (writer_request self reqs) = Inr (JStr r1)"
    and c1: "extract_code_from_response r1 = Inr code"
    and v: "validate_python_code w code = Inr False"
  shows "generate_project self w reqs s =
     (Inl (Exn ValueError ''Generated code is not valid Python''),
      log_event (HttpPost (writer_request self reqs)) s)"
  using r1 unfolding generate_project_def writer_request_def
  by (simp add: and_then_def get_llm_response_writer c1 v of_result_def raises_def)

lemma path_join_plain:
  "CHR ''/'' \<notin> set n \<Longrightarrow>
     path_join d n = (if d = [] \<or> last d = CHR ''/'' then d else d @ ''/'') @ n"
  by (cases n) (auto simp: path_join_def)

lemma path_join_inject:
  "CHR ''/'' \<notin> set n \<Longrightarrow> CHR ''/'' \<notin> set m \<Longrightarrow> path_join d n = path_join d m \<longleftrightarrow> n = m"
  by (simp add: path_join_plain)

lemma dir_entries_two_writes:
  "dir_entries (fs(path_join d ''main.py'' \<mapsto> a, path_join d ''test_main.py'' \<mapsto> b)) d
     = dir_entries fs d \<union> {''main.py'', ''test_main.py''}"
proof -
  have m: "CHR ''/'' \<notin> set ''main.py''" and t: "CHR ''/'' \<notin> set ''test_main.py''" by simp_all
  show ?thesis
    unfolding dir_entries_def
    using path_join_inject [OF _ m, of _ d] path_join_inject [OF _ t, of _ d]
    by auto
qed






section \<open>Syntax validation\<close>

text \<open>
  Claim C3.  \<open>validate_python_code\<close> returns true exactly when \<open>ast.parse\<close> accepts the text
  and false exactly when \<open>ast.parse\<close> raises a \<open>SyntaxError\<close>; any other exception of the
  parser leaves the validator as it is.  The parser is a parameter of the model.
\<close>

theorem validate_python_code_verdict:
  "(validate_python_code w code = Inr True \<longleftrightarrow> ast_parse w code = None)
   \<and> (validate_python_code w code = Inr False
        \<longleftrightarrow> (\<exists>e. ast_parse w code = Some e \<and> isinstance_SyntaxError e))
   \<and> (\<forall>e. ast_parse w code = Some e \<and> \<not> isinstance_SyntaxError e
          \<longrightarrow> validate_python_code w code = Inl e)"
  by (auto simp: validate_python_code_def split: option.splits)

theorem validate_python_code_verdict_witness:
  "validate_python_code sample_world ''x = 1'' = Inr True
   \<and> validate_python_code sample_world ''x = ('' = Inr False
   \<and> validate_python_code
        (sample_world\<lparr>ast_parse := (\<lambda>code. Some (Exn ValueError ''source code string cannot contain null bytes''))\<rparr>)
        [CHR 0x00]
      = Inl (Exn ValueError ''source code string cannot contain null bytes'')"
  using validate_python_code_verdict [of sample_world "''x = 1''"]
    validate_python_code_verdict [of sample_world "''x = (''"]
    validate_python_code_verdict
      [of "sample_world\<lparr>ast_parse := (\<lambda>code. Some (Exn ValueError ''source code string cannot contain null bytes''))\<rparr>"
          "[CHR 0x00]"]
  by (simp add: sample_world_def)

section \<open>The client\<close>

text \<open>
  Claim C8, as amended.  \<open>generate_response\<close> makes one POST and nothing else.  It returns
  the value of \<open>choices[0].message.content\<close> of the decoded body when the call succeeds.
  A transport error, a status from 400 to 599, a body that does not decode and a body
  without \<open>choices\<close>, \<open>message\<close> or \<open>content\<close> are raised as one \<open>Exception\<close> whose message
  is \<open>Error generating response: \<close> followed by the message of the failure.  Any other
  status, 2xx or not, is no failure.
\<close>

theorem generate_response_outcome:
  "generate_response self w messages s =
     (reply_of w (llm_request self messages), log_event (HttpPost (llm_request self messages)) s)
   \<and> (\<forall>e. http_post w req = Inl e \<and> isinstance_Exception e
          \<longrightarrow> reply_of w req = Inl (Exn Exception (''Error generating response: '' @ exc_str e)))
   \<and> (\<forall>r. http_post w req = Inr r \<and> 400 \<le> status_code r \<and> status_code r < 600
          \<longrightarrow> reply_of w req
                = Inl (Exn Exception (''Error generating response: '' @ http_error_msg r)))
   \<and> (\<forall>r e. http_post w req = Inr r \<and> \<not> (400 \<le> status_code r \<and> status_code r < 600)
            \<and> (json_body r = Inl e
                \<or> (\<exists>body. json_body r = Inr body \<and> first_choice_content body = Inl e))
            \<and> isinstance_Exception e
          \<longrightarrow> reply_of w req = Inl (Exn Exception (''Error generating response: '' @ exc_str e)))
   \<and> (\<forall>r body v. http_post w req = Inr r \<and> \<not> (400 \<le> status_code r \<and> status_code r < 600)
            \<and> json_body r = Inr body \<and> first_choice_content body = Inr v
          \<longrightarrow> reply_of w req = Inr v)
   \<and> (map_of kvs ''choices'' = None
        \<longrightarrow> first_choice_content (JObj kvs) = Inl (Exn KeyError (quoted ''choices'')))
   \<and> (map_of kvs ''choices'' = Some (JArr (JObj c # cs)) \<and> map_of c ''message'' = None
        \<longrightarrow> first_choice_content (JObj kvs) = Inl (Exn KeyError (quoted ''message'')))
   \<and> (map_of kvs ''choices'' = Some (JArr (JObj c # cs)) \<and> map_of c ''message'' = Some (JObj m)
        \<and> map_of m ''content'' = None
        \<longrightarrow> first_choice_content (JObj kvs) = Inl (Exn KeyError (quoted ''content'')))"
proof -
  have "generate_response self w messages s =
     (reply_of w (llm_request self messages), log_event (HttpPost (llm_request self messages)) s)"
    by (rule generate_response_eq)
  moreover have "\<forall>e. http_post w req = Inl e \<and> isinstance_Exception e
          \<longrightarrow> reply_of w req = Inl (Exn Exception (''Error generating response: '' @ exc_str e))"
    by (simp add: reply_of_def generic_failure_def)
  moreover have "\<forall>r. http_post w req = Inr r \<and> 400 \<le> status_code r \<and> status_code r < 600
          \<longrightarrow> reply_of w req
                = Inl (Exn Exception (''Error generating response: '' @ http_error_msg r))"
    by (simp add: reply_of_def generic_failure_def)
  moreover have "\<forall>r e. http_post w req = Inr r \<and> \<not> (400 \<le> status_code r \<and> status_code r < 600)
            \<and> (json_body r = Inl e
                \<or> (\<exists>body. json_body r = Inr body \<and> first_choice_content body = Inl e))
            \<and> isinstance_Exception e
          \<longrightarrow> reply_of w req = Inl (Exn Exception (''Error generating response: '' @ exc_str e))"
    by (auto simp: reply_of_def generic_failure_def)
  moreover have "\<forall>r body v. http_post w req = Inr r \<and> \<not> (400 \<le> status_code r \<and> status_code r < 600)
            \<and> json_body r = Inr body \<and> first_choice_content body = Inr v
          \<longrightarrow> reply_of w req = Inr v"
    by (auto simp: reply_of_def)
  moreover have "map_of kvs ''choices'' = None
        \<longrightarrow> first_choice_content (JObj kvs) = Inl (Exn KeyError (quoted ''choices''))"
    by (simp add: first_choice_content_def)
  moreover have "map_of kvs ''choices'' = Some (JArr (JObj c # cs)) \<and> map_of c ''message'' = None
        \<longrightarrow> first_choice_content (JObj kvs) = Inl (Exn KeyError (quoted ''message''))"
    by (simp add: first_choice_content_def)
  moreover have "map_of kvs ''choices'' = Some (JArr (JObj c # cs)) \<and> map_of c ''message'' = Some (JObj m)
        \<and> map_of m ''content'' = None
        \<longrightarrow> first_choice_content (JObj kvs) = Inl (Exn KeyError (quoted ''content''))"
    by (simp add: first_choice_content_def)
  ultimately show ?thesis by (intro conjI)
qed


theorem generate_response_outcome_witness:
  "fst (generate_response (OpenRouterLLM_init ''sk-test'') sample_world (JArr []) empty_state)
     = Inr (JStr (''Here you are:'' @ [CHR 0x0A] @ ''```python'' @ [CHR 0x0A] @ ''x = 1'' @ [CHR 0x0A] @ ''```''))
   \<and> trace (snd (generate_response (OpenRouterLLM_init ''sk-test'') sample_world (JArr []) empty_state))
     = [HttpPost (llm_request (OpenRouterLLM_init ''sk-test'') (JArr []))]
   \<and> reply_of offline_world (llm_request (OpenRouterLLM_init ''sk-test'') (JArr []))
     = Inl (Exn Exception ''Error generating response: unreachable'')
   \<and> reply_of denied_world (llm_request (OpenRouterLLM_init ''sk-test'') (JArr []))
     = Inl (Exn Exception (''Error generating response: '' @ http_error_msg denied_reply))
   \<and> reply_of error_body_world (llm_request (OpenRouterLLM_init ''sk-test'') (JArr []))
     = Inl (Exn Exception (''Error generating response: '' @ quoted ''choices''))
   \<and> first_choice_content (JObj [(''choices'', JArr [JObj [(''index'', JInt 0)]])])
     = Inl (Exn KeyError (quoted ''message''))
   \<and> first_choice_content
        (JObj [(''choices'', JArr [JObj [(''message'', JObj [(''role'', JStr ''assistant'')])]])])
     = Inl (Exn KeyError (quoted ''content''))"
  using
    generate_response_outcome
      [of "OpenRouterLLM_init ''sk-test''" sample_world "JArr []" empty_state
          "llm_request (OpenRouterLLM_init ''sk-test'') (JArr [])"
          "[(''error'', JObj [(''message'', JStr ''No auth credentials found'')])]"]
    generate_response_outcome
      [of "OpenRouterLLM_init ''sk-test''" offline_world "JArr []" empty_state
          "llm_request (OpenRouterLLM_init ''sk-test'') (JArr [])"
          "[(''choices'', JArr [JObj [(''index'', JInt 0)]])]" "[(''index'', JInt 0)]" "[]"]
    generate_response_outcome
      [of "OpenRouterLLM_init ''sk-test''" denied_world "JArr []" empty_state
          "llm_request (OpenRouterLLM_init ''sk-test'') (JArr [])"
          "[(''choices'', JArr [JObj [(''message'', JObj [(''role'', JStr ''assistant'')])]])]"
          "[(''message'', JObj [(''role'', JStr ''assistant'')])]" "[]"
          "[(''role'', JStr ''assistant'')]"]
    generate_response_outcome
      [of "OpenRouterLLM_init ''sk-test''" error_body_world "JArr []" empty_state
          "llm_request (OpenRouterLLM_init ''sk-test'') (JArr [])"]
  by (simp add: sample_world_def offline_world_def denied_world_def error_body_world_def
        fenced_reply_def denied_reply_def first_choice_content_def empty_state_def
        log_event_def)

text \<open>
  Claim C8 as the specification states it fails for a status that is neither 2xx nor an
  error for \<open>raise_for_status\<close>: on a reply with status 300 and a well-formed body the
  client returns the content and raises nothing.
\<close>

theorem generate_response_status_300:
  "http_post redirect_world (llm_request (OpenRouterLLM_init ''sk-test'') (JArr []))
     = Inr (fenced_reply\<lparr>status_code := 300\<rparr>)
   \<and> fst (generate_response (OpenRouterLLM_init ''sk-test'') redirect_world (JArr []) empty_state)
     = Inr (JStr (''Here you are:'' @ [CHR 0x0A] @ ''```python'' @ [CHR 0x0A] @ ''x = 1'' @ [CHR 0x0A] @ ''```''))"
  by (simp add: generate_response_eq reply_of_def redirect_world_def sample_world_def
        fenced_reply_def first_choice_content_def)

section \<open>The orchestrator\<close>

text \<open>
  Claim C6.  On a run where every step succeeds, \<open>generate_project\<close> calls the outside
  in this order: the request for the code, the write of the main file, the request for
  the review, the two prints, the request for the tests, the write of the test file;
  the main file holds the code extracted from the first response and validated.  When
  the extracted code does not parse, \<open>generate_project\<close> raises \<open>ValueError\<close> after its
  first request: no file is written and no further request is made.
\<close>

theorem generate_project_order:
  "(successful_run self w reqs code review test_code
      \<longrightarrow> generate_project self w reqs s =
           (Inr (),
            s\<lparr>files := (files s)(path_join (workspace_dir self) ''main.py'' \<mapsto> code,
                                 path_join (workspace_dir self) ''test_main.py'' \<mapsto> test_code),
              trace := trace s @
                [HttpPost (writer_request self reqs),
                 Makedirs (workspace_dir self),
                 WriteFile (path_join (workspace_dir self) ''main.py'') code,
                 HttpPost (reviewer_request self code),
                 Print (JStr ([CHR 0x0A] @ ''Code Review:'')),
                 Print review,
                 HttpPost (tester_request self code),
                 Makedirs (workspace_dir self),
                 WriteFile (path_join (workspace_dir self) ''test_main.py'') test_code]\<rparr>))
   \<and> (reply_of w (writer_request self reqs) = Inr (JStr answer)
        \<and> extract_code_from_response answer = Inr code
        \<and> validate_python_code w code = Inr False
      \<longrightarrow> generate_project self w reqs s =
           (Inl (Exn ValueError ''Generated code is not valid Python''),
            s\<lparr>trace := trace s @ [HttpPost (writer_request self reqs)]\<rparr>))"
  using generate_project_success [of self w reqs code review test_code s]
    generate_project_rejects [of w self reqs answer code s]
  by (simp add: log_event_def)


theorem generate_project_order_witness:
  "successful_run sample_project sample_world ''a counter'' ''x = 1''
     (JStr (''Here you are:'' @ [CHR 0x0A] @ ''```python'' @ [CHR 0x0A] @ ''x = 1'' @ [CHR 0x0A] @ ''```''))
     ''x = 1''
   \<and> generate_project sample_project sample_world ''a counter'' empty_state =
       (Inr (),
        \<lparr>files = [''ws/main.py'' \<mapsto> ''x = 1'', ''ws/test_main.py'' \<mapsto> ''x = 1''],
         trace =
           [HttpPost (writer_request sample_project ''a counter''),
            Makedirs ''ws'',
            WriteFile ''ws/main.py'' ''x = 1'',
            HttpPost (reviewer_request sample_project ''x = 1''),
            Print (JStr ([CHR 0x0A] @ ''Code Review:'')),
            Print (JStr (''Here you are:'' @ [CHR 0x0A] @ ''```python'' @ [CHR 0x0A] @ ''x = 1'' @ [CHR 0x0A] @ ''```'')),
            HttpPost (tester_request sample_project ''x = 1''),
            Makedirs ''ws'',
            WriteFile ''ws/test_main.py'' ''x = 1'']\<rparr>)
   \<and> validate_python_code broken_world ''x = ('' = Inr False
   \<and> generate_project sample_project broken_world ''a counter'' empty_state =
       (Inl (Exn ValueError ''Generated code is not valid Python''),
        \<lparr>files = Map.empty, trace = [HttpPost (writer_request sample_project ''a counter'')]\<rparr>)"
proof -
  have ok: "successful_run sample_project sample_world ''a counter'' ''x = 1''
     (JStr (''Here you are:'' @ [CHR 0x0A] @ ''```python'' @ [CHR 0x0A] @ ''x = 1'' @ [CHR 0x0A] @ ''```''))
     ''x = 1''"
    by (simp add: successful_run_def reply_of_def sample_world_def fenced_reply_def
          first_choice_content_def extract_code_from_response_def strip_def isspace_def
          whitespace_def validate_python_code_def)
  have r1: "reply_of broken_world (writer_request sample_project ''a counter'')
              = Inr (JStr (''```python'' @ [CHR 0x0A] @ ''x = ('' @ [CHR 0x0A] @ ''```''))"
    by (simp add: reply_of_def broken_world_def broken_reply_def sample_world_def
          fenced_reply_def first_choice_content_def)
  have c1: "extract_code_from_response (''```python'' @ [CHR 0x0A] @ ''x = ('' @ [CHR 0x0A] @ ''```'')
              = Inr ''x = (''"
    by (simp add: extract_code_from_response_def strip_def isspace_def whitespace_def)
  have v: "validate_python_code broken_world ''x = ('' = Inr False"
    by (simp add: validate_python_code_def broken_world_def sample_world_def)
  show ?thesis
    using ok r1 c1 v
      generate_project_order
        [of sample_project sample_world "''a counter''" "''x = 1''"
            "JStr (''Here you are:'' @ [CHR 0x0A] @ ''```python'' @ [CHR 0x0A] @ ''x = 1'' @ [CHR 0x0A] @ ''```'')"
            "''x = 1''" empty_state]
      generate_project_order
        [where self = sample_project and w = broken_world and reqs = "''a counter''"
           and code = "''x = (''" and s = empty_state
           and answer = "''```python'' @ [CHR 0x0A] @ ''x = ('' @ [CHR 0x0A] @ ''```''"]
    by (simp add: empty_state_def sample_project_def CodeProject_init_def path_join_def)
qed

text \<open>
  Claim C7, as amended.  On a successful run \<open>generate_project\<close> asks for the workspace
  directory before each write and writes two files, \<open>main.py\<close> and \<open>test_main.py\<close> in the
  workspace, whose contents are the code and the test code extracted from the
  responses, whatever these files held before; it changes no other file, and the
  review is printed and written nowhere.  The workspace ends up holding exactly these
  two files when it held no other file before the run.
\<close>

theorem generate_project_files:
  assumes "successful_run self w reqs code review test_code"
  shows "fst (generate_project self w reqs s) = Inr ()
    \<and> files (snd (generate_project self w reqs s))
        = (files s)(path_join (workspace_dir self) ''main.py'' \<mapsto> code,
                    path_join (workspace_dir self) ''test_main.py'' \<mapsto> test_code)
    \<and> filter (\<lambda>ev. case ev of HttpPost r \<Rightarrow> False | _ \<Rightarrow> True)
         (drop (length (trace s)) (trace (snd (generate_project self w reqs s))))
        = [Makedirs (workspace_dir self),
           WriteFile (path_join (workspace_dir self) ''main.py'') code,
           Print (JStr ([CHR 0x0A] @ ''Code Review:'')),
           Print review,
           Makedirs (workspace_dir self),
           WriteFile (path_join (workspace_dir self) ''test_main.py'') test_code]
    \<and> dir_entries (files (snd (generate_project self w reqs s))) (workspace_dir self)
        = dir_entries (files s) (workspace_dir self) \<union> {''main.py'', ''test_main.py''}
    \<and> (dir_entries (files s) (workspace_dir self) \<subseteq> {''main.py'', ''test_main.py''}
        \<longrightarrow> dir_entries (files (snd (generate_project self w reqs s))) (workspace_dir self)
            = {''main.py'', ''test_main.py''})"
proof -
  note run = generate_project_success [OF assms, of s]
  have 1: "fst (generate_project self w reqs s) = Inr ()" by (simp add: run)
  have 2: "files (snd (generate_project self w reqs s))
        = (files s)(path_join (workspace_dir self) ''main.py'' \<mapsto> code,
                    path_join (workspace_dir self) ''test_main.py'' \<mapsto> test_code)"
    by (simp add: run)
  have 3: "filter (\<lambda>ev. case ev of HttpPost r \<Rightarrow> False | _ \<Rightarrow> True)
         (drop (length (trace s)) (trace (snd (generate_project self w reqs s))))
        = [Makedirs (workspace_dir self),
           WriteFile (path_join (workspace_dir self) ''main.py'') code,
           Print (JStr ([CHR 0x0A] @ ''Code Review:'')),
           Print review,
           Makedirs (workspace_dir self),
           WriteFile (path_join (workspace_dir self) ''test_main.py'') test_code]"
    by (simp add: run)
  have 4: "dir_entries (files (snd (generate_project self w reqs s))) (workspace_dir self)
        = dir_entries (files s) (workspace_dir self) \<union> {''main.py'', ''test_main.py''}"
    unfolding 2 by (rule dir_entries_two_writes)
  have 5: "dir_entries (files s) (workspace_dir self) \<subseteq> {''main.py'', ''test_main.py''}
        \<longrightarrow> dir_entries (files (snd (generate_project self w reqs s))) (workspace_dir self)
            = {''main.py'', ''test_main.py''}"
    unfolding 4 by blast
  from 1 2 3 4 5 show ?thesis by (intro conjI)
qed


theorem generate_project_files_witness:
  "successful_run sample_project sample_world ''a counter'' ''x = 1''
     (JStr (''Here you are:'' @ [CHR 0x0A] @ ''```python'' @ [CHR 0x0A] @ ''x = 1'' @ [CHR 0x0A] @ ''```''))
     ''x = 1''
   \<and> dir_entries (files empty_state) ''ws'' \<subseteq> {''main.py'', ''test_main.py''}
   \<and> files (snd (generate_project sample_project sample_world ''a counter'' empty_state))
       = [''ws/main.py'' \<mapsto> ''x = 1'', ''ws/test_main.py'' \<mapsto> ''x = 1'']
   \<and> dir_entries (files (snd (generate_project sample_project sample_world ''a counter'' empty_state))) ''ws''
       = {''main.py'', ''test_main.py''}"
proof -
  have ok: "successful_run sample_project sample_world ''a counter'' ''x = 1''
     (JStr (''Here you are:'' @ [CHR 0x0A] @ ''```python'' @ [CHR 0x0A] @ ''x = 1'' @ [CHR 0x0A] @ ''```''))
     ''x = 1''"
    by (simp add: successful_run_def reply_of_def sample_world_def fenced_reply_def
          first_choice_content_def extract_code_from_response_def strip_def isspace_def
          whitespace_def validate_python_code_def)
  have e: "dir_entries (files empty_state) ''ws'' \<subseteq> {''main.py'', ''test_main.py''}"
    by (simp add: dir_entries_def empty_state_def)
  have ws: "workspace_dir sample_project = ''ws''"
    by (simp add: sample_project_def CodeProject_init_def)
  note fact = generate_project_files [OF ok, of empty_state, unfolded ws]
  from fact have f: "files (snd (generate_project sample_project sample_world ''a counter'' empty_state))
       = (files empty_state)(path_join ''ws'' ''main.py'' \<mapsto> ''x = 1'',
                             path_join ''ws'' ''test_main.py'' \<mapsto> ''x = 1'')"
    by blast
  from fact e have d: "dir_entries (files (snd (generate_project sample_project sample_world ''a counter'' empty_state))) ''ws''
       = {''main.py'', ''test_main.py''}"
    by blast
  have "(files empty_state)(path_join ''ws'' ''main.py'' \<mapsto> ''x = 1'',
                            path_join ''ws'' ''test_main.py'' \<mapsto> ''x = 1'')
        = [''ws/main.py'' \<mapsto> ''x = 1'', ''ws/test_main.py'' \<mapsto> ''x = 1'']"
    by (simp add: empty_state_def path_join_def)
  with f have "files (snd (generate_project sample_project sample_world ''a counter'' empty_state))
       = [''ws/main.py'' \<mapsto> ''x = 1'', ''ws/test_main.py'' \<mapsto> ''x = 1'']"
    by (rule trans)
  with ok e d show ?thesis by (intro conjI)
qed

text \<open>
  Claim C7 as the specification states it fails when the workspace holds another file
  before the run: the run is successful, and the workspace ends up with three files.
\<close>

theorem workspace_keeps_other_files:
  "successful_run sample_project sample_world ''a counter'' ''x = 1''
     (JStr (''Here you are:'' @ [CHR 0x0A] @ ''```python'' @ [CHR 0x0A] @ ''x = 1'' @ [CHR 0x0A] @ ''```''))
     ''x = 1''
   \<and> fst (generate_project sample_project sample_world ''a counter'' notes_state) = Inr ()
   \<and> ''notes.txt'' \<in> dir_entries
        (files (snd (generate_project sample_project sample_world ''a counter'' notes_state))) ''ws''
   \<and> dir_entries
        (files (snd (generate_project sample_project sample_world ''a counter'' notes_state))) ''ws''
       \<noteq> {''main.py'', ''test_main.py''}"
proof -
  have ok: "successful_run sample_project sample_world ''a counter'' ''x = 1''
     (JStr (''Here you are:'' @ [CHR 0x0A] @ ''```python'' @ [CHR 0x0A] @ ''x = 1'' @ [CHR 0x0A] @ ''```''))
     ''x = 1''"
    by (simp add: successful_run_def reply_of_def sample_world_def fenced_reply_def
          first_choice_content_def extract_code_from_response_def strip_def isspace_def
          whitespace_def validate_python_code_def)
  note run = generate_project_success [OF ok, of notes_state]
  have ws: "workspace_dir sample_project = ''ws''"
    by (simp add: sample_project_def CodeProject_init_def)
  have m: "''notes.txt'' \<in> dir_entries
        (files (snd (generate_project sample_project sample_world ''a counter'' notes_state))) ''ws''"
    unfolding run by (simp add: ws dir_entries_def notes_state_def path_join_def)
  have n: "dir_entries
        (files (snd (generate_project sample_project sample_world ''a counter'' notes_state))) ''ws''
       \<noteq> {''main.py'', ''test_main.py''}"
  proof
    assume "dir_entries
        (files (snd (generate_project sample_project sample_world ''a counter'' notes_state))) ''ws''
       = {''main.py'', ''test_main.py''}"
    then have "''notes.txt'' \<in> {''main.py'', ''test_main.py''}" using m by (simp only:)
    then show False by simp
  qed
  have r: "fst (generate_project sample_project sample_world ''a counter'' notes_state) = Inr ()"
    unfolding run by simp
  from ok r m n show ?thesis by (intro conjI)
qed


section \<open>The entry point\<close>













end
